theory Spec2Isabelle
  imports Complex_Main "HOL-Library.Sublist"
begin

section \<open>Tensors\<close>

text \<open>
  A tensor has an element type, a static shape and its elements in row-major order.
  \<open>get_shape().ndims\<close> is the length of the shape. Values of \<open>tf.float32\<close> are
  modelled by the real numbers they denote: rounding, infinities and NaN are outside the
  model. The only float arithmetic of \<open>accuracy\<close> multiplies a weight by 0 or by 1.
\<close>

datatype dtype = TInt32 | TInt64 | TFloat32 | TBool

datatype elem = I int | F real | B bool

record tensor =
  dtype :: dtype
  shape :: "nat list"
  data :: "elem list"

definition ndims :: "tensor \<Rightarrow> nat" where
  "ndims x = length (shape x)"

fun elem_ok :: "dtype \<Rightarrow> elem \<Rightarrow> bool" where
  "elem_ok TInt32 (I i) = (- (2 ^ 31) \<le> i \<and> i < 2 ^ 31)"
| "elem_ok TInt64 (I i) = (- (2 ^ 63) \<le> i \<and> i < 2 ^ 63)"
| "elem_ok TFloat32 (F r) = True"
| "elem_ok TBool (B b) = True"
| "elem_ok _ _ = False"

definition wf_tensor :: "tensor \<Rightarrow> bool" where
  "wf_tensor x = (length (data x) = prod_list (shape x) \<and> list_all (elem_ok (dtype x)) (data x))"

datatype error =
  ValueError string
  | OpTypeError
  | OpShapeError

section \<open>The tensor operations used by the metrics\<close>

text \<open>
  The operations of the tensor library that \<open>accuracy\<close> calls. Each of them rejects
  operands it cannot combine: \<open>OpTypeError\<close> for element types, \<open>OpShapeError\<close> for
  shapes.
\<close>

fun chunks :: "nat \<Rightarrow> nat \<Rightarrow> 'a list \<Rightarrow> 'a list list" where
  "chunks n 0 xs = []"
| "chunks n (Suc k) xs = take n xs # chunks n k (drop n xs)"

fun bcast :: "nat list \<Rightarrow> nat list \<Rightarrow> 'a list \<Rightarrow> 'a list" where
  "bcast (s # ss) (d # ds) xs =
     (let blocks = concat (map (bcast ss ds) (chunks (prod_list ss) s xs))
      in if s = d then blocks else concat (replicate d blocks))"
| "bcast _ _ xs = xs"

definition pad_shape :: "nat \<Rightarrow> nat list \<Rightarrow> nat list" where
  "pad_shape r s = replicate (r - length s) 1 @ s"

fun broadcast_dims :: "nat list \<Rightarrow> nat list \<Rightarrow> nat list option" where
  "broadcast_dims [] [] = Some []"
| "broadcast_dims (a # as) (b # bs) =
     (case broadcast_dims as bs of
        None \<Rightarrow> None
      | Some r \<Rightarrow>
          if a = b then Some (a # r)
          else if a = 1 then Some (b # r)
          else if b = 1 then Some (a # r)
          else None)"
| "broadcast_dims _ _ = None"

definition broadcast_shapes :: "nat list \<Rightarrow> nat list \<Rightarrow> nat list option" where
  "broadcast_shapes s t =
     (let r = max (length s) (length t) in broadcast_dims (pad_shape r s) (pad_shape r t))"

definition broadcast_to :: "nat list \<Rightarrow> tensor \<Rightarrow> elem list" where
  "broadcast_to s x = bcast (pad_shape (length s) (shape x)) s (data x)"

definition elementwise ::
  "(elem \<Rightarrow> elem \<Rightarrow> elem) \<Rightarrow> dtype \<Rightarrow> tensor \<Rightarrow> tensor \<Rightarrow> error + tensor" where
  "elementwise f out x y =
     (if dtype x \<noteq> dtype y then Inl OpTypeError
      else case broadcast_shapes (shape x) (shape y) of
        None \<Rightarrow> Inl OpShapeError
      | Some s \<Rightarrow>
          Inr \<lparr>dtype = out, shape = s,
               data = map2 f (broadcast_to s x) (broadcast_to s y)\<rparr>)"

definition wrap_signed :: "nat \<Rightarrow> int \<Rightarrow> int" where
  "wrap_signed n i = (i + 2 ^ (n - 1)) mod 2 ^ n - 2 ^ (n - 1)"

definition tf_equal :: "tensor \<Rightarrow> tensor \<Rightarrow> error + tensor" where
  "tf_equal x y = elementwise (\<lambda>a b. B (a = b)) TBool x y"

text \<open>
  Integer products wrap around. The last equation is for entries that do not have the
  element type of their tensor, which a well-formed tensor does not contain.
\<close>

fun elem_mult :: "dtype \<Rightarrow> elem \<Rightarrow> elem \<Rightarrow> elem" where
  "elem_mult TInt32 (I a) (I b) = I (wrap_signed 32 (a * b))"
| "elem_mult TInt64 (I a) (I b) = I (wrap_signed 64 (a * b))"
| "elem_mult _ (F a) (F b) = F (a * b)"
| "elem_mult _ a _ = a"

definition tf_multiply :: "tensor \<Rightarrow> tensor \<Rightarrow> error + tensor" where
  "tf_multiply x y =
     (if dtype x = TBool then Inl OpTypeError
      else elementwise (elem_mult (dtype x)) (dtype x) x y)"

fun to_int :: "elem \<Rightarrow> int" where
  "to_int (I i) = i"
| "to_int (F r) = (if r < 0 then - \<lfloor>- r\<rfloor> else \<lfloor>r\<rfloor>)"
| "to_int (B b) = (if b then 1 else 0)"

fun to_real :: "elem \<Rightarrow> real" where
  "to_real (I i) = of_int i"
| "to_real (F r) = r"
| "to_real (B b) = (if b then 1 else 0)"

fun cast_elem :: "dtype \<Rightarrow> elem \<Rightarrow> elem" where
  "cast_elem TInt32 e = I (wrap_signed 32 (to_int e))"
| "cast_elem TInt64 e = I (wrap_signed 64 (to_int e))"
| "cast_elem TFloat32 e = F (to_real e)"
| "cast_elem TBool e = B (to_real e \<noteq> 0)"

definition tf_cast :: "tensor \<Rightarrow> dtype \<Rightarrow> tensor" where
  "tf_cast x t = x\<lparr>dtype := t, data := map (cast_elem t) (data x)\<rparr>"

text \<open>
  \<open>tf.argmax(x, axis=-1)\<close>: the index of the largest entry of each row along the
  trailing axis, as \<open>tf.int64\<close>; the first such index when several entries are largest.
\<close>

fun argmax_from :: "nat \<Rightarrow> nat \<Rightarrow> real \<Rightarrow> real list \<Rightarrow> nat" where
  "argmax_from i best m [] = best"
| "argmax_from i best m (x # xs) =
     (if m < x then argmax_from (Suc i) i x xs else argmax_from (Suc i) best m xs)"

fun argmax_row :: "elem list \<Rightarrow> elem" where
  "argmax_row [] = I 0"
| "argmax_row (x # xs) = I (wrap_signed 64 (int (argmax_from 1 0 (to_real x) (map to_real xs))))"

definition tf_argmax :: "tensor \<Rightarrow> error + tensor" where
  "tf_argmax x =
     (if dtype x = TBool then Inl OpTypeError
      else if shape x = [] \<or> last (shape x) = 0 then Inl OpShapeError
      else Inr \<lparr>dtype = TInt64, shape = butlast (shape x),
                data = map argmax_row
                  (chunks (last (shape x)) (prod_list (butlast (shape x))) (data x))\<rparr>)"

section \<open>Tensor objects and operations that create them\<close>

text \<open>
  Tensors are objects: a program holds references to them, and an operation creates a
  new tensor object and returns the reference to it. The objects created so far are a
  list, a reference is a position in it. An operation that fails creates nothing.
\<close>

type_synonym tref = nat

type_synonym 'a build = "tensor list \<Rightarrow> (error + 'a) \<times> tensor list"

definition ret :: "'a \<Rightarrow> 'a build" where
  "ret a g = (Inr a, g)"

definition raise :: "error \<Rightarrow> 'a build" where
  "raise e g = (Inl e, g)"

definition bind :: "'a build \<Rightarrow> ('a \<Rightarrow> 'b build) \<Rightarrow> 'b build" where
  "bind m f g = (case m g of (Inl e, g') \<Rightarrow> (Inl e, g') | (Inr a, g') \<Rightarrow> f a g')"

definition create :: "error + tensor \<Rightarrow> tref build" where
  "create r g = (case r of Inl e \<Rightarrow> (Inl e, g) | Inr x \<Rightarrow> (Inr (length g), g @ [x]))"

definition op_argmax :: "tref \<Rightarrow> tref build" where
  "op_argmax a g = create (tf_argmax (g ! a)) g"

definition op_cast :: "tref \<Rightarrow> dtype \<Rightarrow> tref build" where
  "op_cast a t g = create (Inr (tf_cast (g ! a) t)) g"

definition op_equal :: "tref \<Rightarrow> tref \<Rightarrow> tref build" where
  "op_equal a b g = create (tf_equal (g ! a) (g ! b)) g"

definition op_multiply :: "tref \<Rightarrow> tref \<Rightarrow> tref build" where
  "op_multiply a b g = create (tf_multiply (g ! a) (g ! b)) g"

section \<open>accuracy\<close>

text \<open>Python's \<open>%d\<close> for a non-negative integer: its decimal digits.\<close>

definition digit :: "nat \<Rightarrow> char" where
  "digit d = ''0123456789'' ! d"

fun show_nat :: "nat \<Rightarrow> string" where
  "show_nat n = (if n < 10 then [digit n] else show_nat (n div 10) @ [digit (n mod 10)])"

declare show_nat.simps [simp del]

definition rank_message :: "nat \<Rightarrow> nat \<Rightarrow> string" where
  "rank_message prank trank =
     ''Rank of `predictions` must be equal to rank of `label` or greater of 1, found ''
     @ show_nat prank @ '' and '' @ show_nat trank @ '' instead.''"

text \<open>
  The last four lines of \<open>accuracy\<close>, which both branches of the rank test reach:
  compare, cast to \<open>tf.float32\<close>, multiply by the weights, return the pair.
\<close>

definition accuracy_tail :: "tref \<Rightarrow> tref \<Rightarrow> tref \<Rightarrow> (tref \<times> tref) build" where
  "accuracy_tail targets predictions weights =
     bind (op_equal targets predictions) (\<lambda>is_equal.
     bind (op_cast is_equal TFloat32) (\<lambda>is_equal.
     bind (op_multiply is_equal weights) (\<lambda>is_equal.
     ret (is_equal, weights))))"

definition accuracy :: "tref \<Rightarrow> tref \<Rightarrow> tref \<Rightarrow> (tref \<times> tref) build" where
  "accuracy targets predictions weights g =
     (let trank = ndims (g ! targets);
          prank = ndims (g ! predictions)
      in if prank > trank then
           (let diff = prank - trank
            in if diff > 1 then raise (ValueError (rank_message prank trank)) g
               else bind (op_argmax predictions) (\<lambda>predictions.
                    bind (op_cast predictions TInt32) (\<lambda>predictions.
                    accuracy_tail targets predictions weights)) g)
         else accuracy_tail targets predictions weights g)"

section \<open>The streaming average\<close>

text \<open>
  The class \<open>StreamingAverage\<close> of \<open>liteflow.streaming\<close> and the function
  \<open>utils.add_to_collections\<close> are not among the sources. Everything in this section is
  modelled from the spec. An average is an object, referred to by its position among the
  averages created so far. Its properties are handles: a read of one of the six views, the
  update action, the reset action. Reading a handle and running an action happen later,
  in the state of that moment.
\<close>

type_synonym aref = nat

text \<open>
  Modelled from the spec: the AccumulatorState of a \<open>StreamingAverage\<close>, with the batch
  that the latest \<open>compute\<close> declared: the references to the values and to the weights,
  and the scope under which the declaration was built.
\<close>

record StreamingAverage =
  running_sum :: real
  running_weight :: real
  batch_sum :: real
  batch_weight :: real
  declared :: "(tref \<times> tref \<times> string) option"

text \<open>Modelled from the spec: the six read-only views of a \<open>StreamingAverage\<close>.\<close>

datatype view = Value | Count | Total | Batch_value | Batch_count | Batch_total

text \<open>
  Modelled from the spec: what the properties of a \<open>StreamingAverage\<close> return, a read
  of a view or one of the two actions.
\<close>

datatype handle = Read aref view | Update_op aref | Reset_op aref

text \<open>
  The state that the metrics work on: the tensor objects, the streaming averages and the
  named collections. A collection that was never added to is empty.
\<close>

record world =
  tensors :: "tensor list"
  averages :: "StreamingAverage list"
  collections :: "string \<Rightarrow> handle list"

text \<open>Modelled from the spec: the constructor of \<open>StreamingAverage\<close>; the state is zero.\<close>

definition StreamingAverage_new :: StreamingAverage where
  "StreamingAverage_new =
     \<lparr>running_sum = 0, running_weight = 0, batch_sum = 0, batch_weight = 0, declared = None\<rparr>"

text \<open>Modelled from the spec: the property \<open>value\<close> of \<open>StreamingAverage\<close>.\<close>

definition StreamingAverage_value :: "aref \<Rightarrow> handle" where
  "StreamingAverage_value a = Read a Value"

text \<open>Modelled from the spec: the property \<open>count\<close> of \<open>StreamingAverage\<close>.\<close>

definition StreamingAverage_count :: "aref \<Rightarrow> handle" where
  "StreamingAverage_count a = Read a Count"

text \<open>Modelled from the spec: the property \<open>total\<close> of \<open>StreamingAverage\<close>.\<close>

definition StreamingAverage_total :: "aref \<Rightarrow> handle" where
  "StreamingAverage_total a = Read a Total"

text \<open>Modelled from the spec: the property \<open>batch_value\<close> of \<open>StreamingAverage\<close>.\<close>

definition StreamingAverage_batch_value :: "aref \<Rightarrow> handle" where
  "StreamingAverage_batch_value a = Read a Batch_value"

text \<open>Modelled from the spec: the property \<open>batch_count\<close> of \<open>StreamingAverage\<close>.\<close>

definition StreamingAverage_batch_count :: "aref \<Rightarrow> handle" where
  "StreamingAverage_batch_count a = Read a Batch_count"

text \<open>Modelled from the spec: the property \<open>batch_total\<close> of \<open>StreamingAverage\<close>.\<close>

definition StreamingAverage_batch_total :: "aref \<Rightarrow> handle" where
  "StreamingAverage_batch_total a = Read a Batch_total"

text \<open>Modelled from the spec: the property \<open>update_op\<close> of \<open>StreamingAverage\<close>.\<close>

definition StreamingAverage_update_op :: "aref \<Rightarrow> handle" where
  "StreamingAverage_update_op a = Update_op a"

text \<open>Modelled from the spec: the property \<open>reset_op\<close> of \<open>StreamingAverage\<close>.\<close>

definition StreamingAverage_reset_op :: "aref \<Rightarrow> handle" where
  "StreamingAverage_reset_op a = Reset_op a"

text \<open>
  Modelled from the spec: \<open>StreamingAverage.compute\<close>. It declares the accumulation step
  for one batch and computes nothing; a later declaration replaces an earlier one.
\<close>

definition StreamingAverage_compute :: "aref \<Rightarrow> tref \<Rightarrow> tref \<Rightarrow> string \<Rightarrow> world \<Rightarrow> world" where
  "StreamingAverage_compute a values weights scope w =
     w\<lparr>averages := (averages w)[a := (averages w ! a)\<lparr>declared := Some (values, weights, scope)\<rparr>]\<rparr>"

text \<open>Modelled from the spec: the guarded division, 0 when the weight is 0.\<close>

definition guarded_div :: "real \<Rightarrow> real \<Rightarrow> real" where
  "guarded_div s w = (if w = 0 then 0 else s / w)"

text \<open>Modelled from the spec: what each view reads in the state of an average.\<close>

fun view_of :: "StreamingAverage \<Rightarrow> view \<Rightarrow> real" where
  "view_of acc Value = guarded_div (running_sum acc) (running_weight acc)"
| "view_of acc Count = running_weight acc"
| "view_of acc Total = running_sum acc"
| "view_of acc Batch_value = guarded_div (batch_sum acc) (batch_weight acc)"
| "view_of acc Batch_count = batch_weight acc"
| "view_of acc Batch_total = batch_sum acc"

text \<open>Modelled from the spec: evaluating a read handle. An action is not a read.\<close>

fun read_handle :: "world \<Rightarrow> handle \<Rightarrow> real option" where
  "read_handle w (Read a v) =
     (if a < length (averages w) then Some (view_of (averages w ! a) v) else None)"
| "read_handle w _ = None"

text \<open>Modelled from the spec: the sum of all entries of a tensor.\<close>

definition sum_elems :: "elem list \<Rightarrow> real" where
  "sum_elems xs = sum_list (map to_real xs)"

text \<open>
  Modelled from the spec: the update transition. The batch fields are overwritten, the
  running fields accumulate.
\<close>

definition update_transition :: "real \<Rightarrow> real \<Rightarrow> StreamingAverage \<Rightarrow> StreamingAverage" where
  "update_transition s w acc =
     acc\<lparr>batch_sum := s, batch_weight := w,
         running_sum := running_sum acc + s, running_weight := running_weight acc + w\<rparr>"

text \<open>Modelled from the spec: the reset transition zeroes the four fields.\<close>

definition reset_transition :: "StreamingAverage \<Rightarrow> StreamingAverage" where
  "reset_transition acc =
     acc\<lparr>running_sum := 0, running_weight := 0, batch_sum := 0, batch_weight := 0\<rparr>"

text \<open>
  Modelled from the spec: running an action. The update action takes the declared batch,
  with \<open>s = sum(values * weights)\<close> and \<open>w = sum(weights)\<close>. \<open>None\<close> is the result
  when there is nothing to run: the handle is a read, the average does not exist, no
  batch was declared, or the product is rejected.
\<close>

fun run_handle :: "handle \<Rightarrow> world \<Rightarrow> world option" where
  "run_handle (Update_op a) w =
     (if a < length (averages w) then
        (case declared (averages w ! a) of
           None \<Rightarrow> None
         | Some (values, weights, scope) \<Rightarrow>
             (case tf_multiply (tensors w ! values) (tensors w ! weights) of
                Inl e \<Rightarrow> None
              | Inr p \<Rightarrow>
                  Some (w\<lparr>averages := (averages w)[a :=
                    update_transition (sum_elems (data p))
                      (sum_elems (data (tensors w ! weights))) (averages w ! a)]\<rparr>)))
      else None)"
| "run_handle (Reset_op a) w =
     (if a < length (averages w) then
        Some (w\<lparr>averages := (averages w)[a := reset_transition (averages w ! a)]\<rparr>)
      else None)"
| "run_handle (Read a v) w = None"

text \<open>
  Modelled from the spec: adding one item to one named collection. The item is appended;
  what the collection held stays.
\<close>

definition add_to_collection :: "string \<Rightarrow> handle \<Rightarrow> world \<Rightarrow> world" where
  "add_to_collection k item w = w\<lparr>collections := (collections w)(k := collections w k @ [item])\<rparr>"

text \<open>
  Modelled from the spec: \<open>utils.add_to_collections\<close>. It adds the item to the collection
  of every name in the list, in the order of the list.
\<close>

fun add_to_collections :: "string list \<Rightarrow> handle \<Rightarrow> world \<Rightarrow> world" where
  "add_to_collections [] item w = w"
| "add_to_collections (k # ks) item w = add_to_collections ks item (add_to_collection k item w)"

section \<open>StreamingMetric\<close>

text \<open>
  A metric object holds the wrapped function, the reference to its streaming average and
  its name. The name is the one that the constructor of the base class
  \<open>StreamingComputation\<close> assigns; that class is not among the sources, so the assigned
  name is taken as given.
\<close>

record StreamingMetric =
  func :: "tref \<Rightarrow> tref \<Rightarrow> tref \<Rightarrow> (tref \<times> tref) build"
  avg :: aref
  name :: string

text \<open>
  \<open>average or streaming.StreamingAverage()\<close>: an average that was passed is kept, otherwise
  a new object is created. An average object counts as true, as every Python object does
  whose class defines neither \<open>__bool__\<close> nor \<open>__len__\<close>.
\<close>

definition StreamingMetric_init ::
  "(tref \<Rightarrow> tref \<Rightarrow> tref \<Rightarrow> (tref \<times> tref) build) \<Rightarrow> aref option \<Rightarrow> string \<Rightarrow> world
     \<Rightarrow> StreamingMetric \<times> world" where
  "StreamingMetric_init f average nm w =
     (case average of
        Some a \<Rightarrow> (\<lparr>func = f, avg = a, name = nm\<rparr>, w)
      | None \<Rightarrow>
          (\<lparr>func = f, avg = length (averages w), name = nm\<rparr>,
           w\<lparr>averages := averages w @ [StreamingAverage_new]\<rparr>))"

text \<open>
  The properties return what the property of the average returns. \<open>total\<close> returns
  \<open>self._avg.value\<close>, as the source has it; \<open>batch_total\<close> returns
  \<open>self._avg.batch_total\<close>.
\<close>

definition StreamingMetric_value :: "StreamingMetric \<Rightarrow> handle" where
  "StreamingMetric_value self = StreamingAverage_value (avg self)"

definition StreamingMetric_count :: "StreamingMetric \<Rightarrow> handle" where
  "StreamingMetric_count self = StreamingAverage_count (avg self)"

definition StreamingMetric_total :: "StreamingMetric \<Rightarrow> handle" where
  "StreamingMetric_total self = StreamingAverage_value (avg self)"

definition StreamingMetric_batch_value :: "StreamingMetric \<Rightarrow> handle" where
  "StreamingMetric_batch_value self = StreamingAverage_batch_value (avg self)"

definition StreamingMetric_batch_count :: "StreamingMetric \<Rightarrow> handle" where
  "StreamingMetric_batch_count self = StreamingAverage_batch_count (avg self)"

definition StreamingMetric_batch_total :: "StreamingMetric \<Rightarrow> handle" where
  "StreamingMetric_batch_total self = StreamingAverage_batch_total (avg self)"

definition StreamingMetric_update_op :: "StreamingMetric \<Rightarrow> handle" where
  "StreamingMetric_update_op self = StreamingAverage_update_op (avg self)"

definition StreamingMetric_reset_op :: "StreamingMetric \<Rightarrow> handle" where
  "StreamingMetric_reset_op self = StreamingAverage_reset_op (avg self)"

text \<open>\<open>scope or self._name\<close>: \<open>None\<close> and the empty string are both false in Python.\<close>

fun scope_or :: "string option \<Rightarrow> string \<Rightarrow> string" where
  "scope_or (Some (c # cs)) nm = c # cs"
| "scope_or _ nm = nm"

text \<open>\<open>if metrics_collections:\<close> holds for a list that is neither \<open>None\<close> nor empty.\<close>

fun publish :: "string list option \<Rightarrow> handle \<Rightarrow> world \<Rightarrow> world" where
  "publish (Some (k # ks)) item w = add_to_collections (k # ks) item w"
| "publish _ item w = w"

text \<open>
  \<open>compute\<close> returns nothing; an exception of the wrapped function leaves the
  \<open>with\<close> block before the average and the collections are reached. The result is the
  error, if any, and the state after the call.
\<close>

definition StreamingMetric_compute ::
  "StreamingMetric \<Rightarrow> tref \<Rightarrow> tref \<Rightarrow> tref \<Rightarrow> string list option \<Rightarrow> string list option
     \<Rightarrow> string option \<Rightarrow> world \<Rightarrow> error option \<times> world" where
  "StreamingMetric_compute self targets predictions weights metrics_collections
       updates_collections scope w =
     (let scope = scope_or scope (name self)
      in case func self targets predictions weights (tensors w) of
           (Inl e, g) \<Rightarrow> (Some e, w\<lparr>tensors := g\<rparr>)
         | (Inr (values, weights), g) \<Rightarrow>
             (let w1 = StreamingAverage_compute (avg self) values weights scope (w\<lparr>tensors := g\<rparr>);
                  w2 = publish metrics_collections (StreamingMetric_value self) w1;
                  w3 = publish updates_collections (StreamingMetric_update_op self) w2
              in (None, w3)))"

text \<open>\<open>__call__\<close>: \<open>compute\<close>, then \<open>return self.value, self.update_op\<close>.\<close>

definition StreamingMetric_call ::
  "StreamingMetric \<Rightarrow> tref \<Rightarrow> tref \<Rightarrow> tref \<Rightarrow> string list option \<Rightarrow> string list option
     \<Rightarrow> string option \<Rightarrow> world \<Rightarrow> (error + handle \<times> handle) \<times> world" where
  "StreamingMetric_call self targets predictions weights metrics_collections
       updates_collections scope w =
     (case StreamingMetric_compute self targets predictions weights metrics_collections
             updates_collections scope w of
        (Some e, w') \<Rightarrow> (Inl e, w')
      | (None, w') \<Rightarrow> (Inr (StreamingMetric_value self, StreamingMetric_update_op self), w'))"

section \<open>Reading results\<close>

text \<open>
  The scoring of the spec, on tensor values: \<open>correct\<close> is the elementwise equality of
  targets and labels, cast to floating point; \<open>scored\<close> is \<open>correct\<close> times the weights.
  \<open>scored\<close> chains the library operations, \<open>scored_spec\<close> writes the result out
  element by element for operands of one shape.
\<close>

definition scored :: "tensor \<Rightarrow> tensor \<Rightarrow> tensor \<Rightarrow> error + tensor" where
  "scored targets labels weights =
     (case tf_equal targets labels of
        Inl e \<Rightarrow> Inl e
      | Inr correct \<Rightarrow> tf_multiply (tf_cast correct TFloat32) weights)"

definition scored_spec :: "tensor \<Rightarrow> tensor \<Rightarrow> tensor \<Rightarrow> tensor" where
  "scored_spec targets labels weights =
     \<lparr>dtype = TFloat32, shape = shape targets,
      data = map (\<lambda>((t, p), w). F ((if t = p then 1 else 0) * to_real w))
               (zip (zip (data targets) (data labels)) (data weights))\<rparr>"

text \<open>What a call returned, with the returned references read in the resulting store.\<close>

fun outcome :: "(error + tref \<times> tref) \<times> tensor list \<Rightarrow> error + tensor \<times> tensor" where
  "outcome (Inl e, g) = Inl e"
| "outcome (Inr (values, weights), g) = Inr (g ! values, g ! weights)"

text \<open>
  The operands that the comparison and the weighting of \<open>accuracy\<close> accept: targets and
  labels of one element type and of shapes that broadcast, float weights that broadcast
  against the result.
\<close>

definition accepted :: "tensor \<Rightarrow> tensor \<Rightarrow> tensor \<Rightarrow> bool" where
  "accepted targets labels weights =
     (dtype targets = dtype labels \<and> dtype weights = TFloat32 \<and>
      (case broadcast_shapes (shape targets) (shape labels) of
         None \<Rightarrow> False
       | Some s \<Rightarrow> broadcast_shapes s (shape weights) \<noteq> None))"

text \<open>The names of an optional list of collection keys.\<close>

fun keys :: "string list option \<Rightarrow> string list" where
  "keys None = []"
| "keys (Some ks) = ks"

section \<open>Example inputs\<close>

definition labels_int32 :: "nat list \<Rightarrow> int list \<Rightarrow> tensor" where
  "labels_int32 s xs = \<lparr>dtype = TInt32, shape = s, data = map I xs\<rparr>"

definition floats :: "nat list \<Rightarrow> real list \<Rightarrow> tensor" where
  "floats s xs = \<lparr>dtype = TFloat32, shape = s, data = map F xs\<rparr>"

definition example_exact_match :: "tensor list" where
  "example_exact_match =
     [labels_int32 [3] [0, 1, 2], labels_int32 [3] [0, 1, 1], floats [3] [1, 1, 1]]"

definition example_distribution :: "tensor list" where
  "example_distribution =
     [labels_int32 [1] [1], floats [1, 3] [0.1, 0.7, 0.2], floats [1] [1]]"

definition example_int64_targets :: "tensor list" where
  "example_int64_targets =
     [\<lparr>dtype = TInt64, shape = [1], data = [I 1]\<rparr>, floats [1, 3] [0.1, 0.7, 0.2], floats [1] [1]]"

definition example_shape_mismatch :: "tensor list" where
  "example_shape_mismatch =
     [labels_int32 [3] [0, 1, 2], labels_int32 [2] [0, 1], floats [3] [1, 1, 1]]"

definition example_rank_violation :: "tensor list" where
  "example_rank_violation =
     [labels_int32 [1] [1], floats [1, 1, 3] [0.1, 0.7, 0.2], floats [1] [1]]"

definition example_lower_rank :: "tensor list" where
  "example_lower_rank =
     [labels_int32 [2, 3] [0, 1, 2, 2, 1, 0], labels_int32 [3] [0, 1, 1], floats [] [2]]"

definition example_metric :: StreamingMetric where
  "example_metric = \<lparr>func = accuracy, avg = 0, name = ''accuracy''\<rparr>"

definition world_of :: "tensor list \<Rightarrow> world" where
  "world_of g = \<lparr>tensors = g, averages = [StreamingAverage_new], collections = (\<lambda>k. [])\<rparr>"

definition example_four :: "tensor list" where
  "example_four =
     [labels_int32 [4] [0, 1, 2, 3], labels_int32 [4] [0, 1, 2, 0], floats [4] [1, 1, 1, 1]]"

text \<open>One batch declared through \<open>example_metric\<close>, then its update action run once.\<close>

definition example_updated :: "world option" where
  "example_updated =
     (case StreamingMetric_compute example_metric 0 1 2 None None None (world_of example_four) of
        (None, w) \<Rightarrow> run_handle (StreamingMetric_update_op example_metric) w
      | (Some e, w) \<Rightarrow> None)"

section \<open>Facts about the tensor operations\<close>

lemma concat_chunks: "length xs = k * n \<Longrightarrow> concat (chunks n k xs) = xs"
proof (induction k arbitrary: xs)
  case 0
  then show ?case by simp
next
  case (Suc k)
  have "length (drop n xs) = k * n" using Suc.prems by simp
  then have "concat (chunks n k (drop n xs)) = drop n xs" by (rule Suc.IH)
  then show ?case by simp
qed

lemma length_chunks: "length xs = k * n \<Longrightarrow> b \<in> set (chunks n k xs) \<Longrightarrow> length b = n"
proof (induction k arbitrary: xs)
  case 0
  then show ?case by simp
next
  case (Suc k)
  have l: "length (drop n xs) = k * n" using Suc.prems(1) by simp
  from Suc.prems(2) consider "b = take n xs" | "b \<in> set (chunks n k (drop n xs))" by auto
  then show ?case
  proof cases
    case 1
    then show ?thesis using Suc.prems(1) by simp
  next
    case 2
    then show ?thesis using Suc.IH [OF l] by simp
  qed
qed

lemma bcast_same: "length xs = prod_list s \<Longrightarrow> bcast s s xs = xs"
proof (induction s arbitrary: xs)
  case Nil
  then show ?case by simp
next
  case (Cons a s)
  have len: "length xs = a * prod_list s" using Cons.prems by simp
  have "map (bcast s s) (chunks (prod_list s) a xs) = chunks (prod_list s) a xs"
  proof (rule map_idI)
    fix b assume "b \<in> set (chunks (prod_list s) a xs)"
    then have "length b = prod_list s" using length_chunks [OF len] by simp
    then show "bcast s s b = b" by (rule Cons.IH)
  qed
  then show ?case using concat_chunks [OF len] by simp
qed

lemma broadcast_dims_same: "broadcast_dims s s = Some s"
  by (induction s) simp_all

lemma broadcast_shapes_same: "broadcast_shapes s s = Some s"
  by (simp add: broadcast_shapes_def pad_shape_def broadcast_dims_same)

lemma broadcast_to_same: "length (data x) = prod_list (shape x) \<Longrightarrow> broadcast_to (shape x) x = data x"
  by (simp add: broadcast_to_def pad_shape_def bcast_same)

lemma elementwise_same_shape:
  assumes "dtype x = dtype y" and "shape y = shape x"
    and "length (data x) = prod_list (shape x)" and "length (data y) = prod_list (shape y)"
  shows "elementwise f out x y = Inr \<lparr>dtype = out, shape = shape x, data = map2 f (data x) (data y)\<rparr>"
proof -
  have "broadcast_to (shape x) y = data y"
    using broadcast_to_same [of y] assms by simp
  then show ?thesis
    using assms broadcast_to_same [of x]
    by (simp add: elementwise_def broadcast_shapes_same)
qed

lemma argmax_from_spec:
  "(argmax_from i best m xs = best \<and> (\<forall>x \<in> set xs. x \<le> m))
   \<or> (\<exists>k < length xs. argmax_from i best m xs = i + k \<and> m < xs ! k
         \<and> (\<forall>x \<in> set xs. x \<le> xs ! k) \<and> (\<forall>j < k. xs ! j < xs ! k))"
proof (induction xs arbitrary: i best m)
  case Nil
  then show ?case by simp
next
  case (Cons x xs)
  show ?case
  proof (cases "m < x")
    case True
    from Cons.IH [of "Suc i" i x]
    consider (keep) "argmax_from (Suc i) i x xs = i" "\<forall>y \<in> set xs. y \<le> x"
      | (later) k where "k < length xs" "argmax_from (Suc i) i x xs = Suc i + k" "x < xs ! k"
          "\<forall>y \<in> set xs. y \<le> xs ! k" "\<forall>j < k. xs ! j < xs ! k"
      by blast
    then show ?thesis
    proof cases
      case keep
      have "0 < length (x # xs) \<and> argmax_from i best m (x # xs) = i + 0 \<and> m < (x # xs) ! 0
          \<and> (\<forall>y \<in> set (x # xs). y \<le> (x # xs) ! 0) \<and> (\<forall>j < 0. (x # xs) ! j < (x # xs) ! 0)"
        using True keep by simp
      then show ?thesis by blast
    next
      case later
      have "Suc k < length (x # xs) \<and> argmax_from i best m (x # xs) = i + Suc k
          \<and> m < (x # xs) ! Suc k \<and> (\<forall>y \<in> set (x # xs). y \<le> (x # xs) ! Suc k)
          \<and> (\<forall>j < Suc k. (x # xs) ! j < (x # xs) ! Suc k)"
        using True later by (auto simp: less_Suc_eq_0_disj)
      then show ?thesis by blast
    qed
  next
    case False
    from Cons.IH [of "Suc i" best m]
    consider (keep) "argmax_from (Suc i) best m xs = best" "\<forall>y \<in> set xs. y \<le> m"
      | (later) k where "k < length xs" "argmax_from (Suc i) best m xs = Suc i + k" "m < xs ! k"
          "\<forall>y \<in> set xs. y \<le> xs ! k" "\<forall>j < k. xs ! j < xs ! k"
      by blast
    then show ?thesis
    proof cases
      case keep
      then show ?thesis using False by simp
    next
      case later
      have "Suc k < length (x # xs) \<and> argmax_from i best m (x # xs) = i + Suc k
          \<and> m < (x # xs) ! Suc k \<and> (\<forall>y \<in> set (x # xs). y \<le> (x # xs) ! Suc k)
          \<and> (\<forall>j < Suc k. (x # xs) ! j < (x # xs) ! Suc k)"
        using False later by (auto simp: less_Suc_eq_0_disj)
      then show ?thesis by blast
    qed
  qed
qed

text \<open>The index chosen for a row is the first position of a largest entry.\<close>

lemma argmax_from_row:
  fixes x :: real and xs :: "real list"
  defines "k \<equiv> argmax_from 1 0 x xs"
  shows "k < length (x # xs) \<and> (\<forall>y \<in> set (x # xs). y \<le> (x # xs) ! k)
    \<and> (\<forall>j < k. (x # xs) ! j < (x # xs) ! k)"
proof -
  from argmax_from_spec [of 1 0 x xs]
  consider (first) "k = 0" "\<forall>y \<in> set xs. y \<le> x"
    | (later) i where "i < length xs" "k = Suc i" "x < xs ! i"
        "\<forall>y \<in> set xs. y \<le> xs ! i" "\<forall>j < i. xs ! j < xs ! i"
    unfolding k_def by auto
  then show ?thesis
  proof cases
    case first
    then show ?thesis by simp
  next
    case later
    then show ?thesis by (auto simp: less_Suc_eq_0_disj)
  qed
qed

lemma accuracy_tail_eq:
  assumes "weights < length g"
  shows "accuracy_tail targets predictions weights g =
    (case tf_equal (g ! targets) (g ! predictions) of
       Inl e \<Rightarrow> (Inl e, g)
     | Inr c \<Rightarrow>
        (case tf_multiply (tf_cast c TFloat32) (g ! weights) of
           Inl e \<Rightarrow> (Inl e, g @ [c, tf_cast c TFloat32])
         | Inr s \<Rightarrow> (Inr (length g + 2, weights), g @ [c, tf_cast c TFloat32, s])))"
  using assms
  by (simp add: accuracy_tail_def bind_def ret_def op_equal_def op_cast_def op_multiply_def
        create_def nth_append split: sum.splits)

lemma outcome_accuracy_tail:
  assumes "weights < length g"
  shows "outcome (accuracy_tail targets predictions weights g) =
    map_sum id (\<lambda>s. (s, g ! weights)) (scored (g ! targets) (g ! predictions) (g ! weights))"
  using assms
  by (simp add: accuracy_tail_eq scored_def nth_append split: sum.splits)

lemma fst_accuracy_tail:
  assumes "weights < length g"
  shows "fst (accuracy_tail targets predictions weights g) =
    map_sum id (\<lambda>s. (length g + 2, weights)) (scored (g ! targets) (g ! predictions) (g ! weights))"
  using assms
  by (simp add: accuracy_tail_eq scored_def split: sum.splits)

lemma weighted_data:
  "list_all (elem_ok TFloat32) ws \<Longrightarrow>
   map2 (elem_mult TFloat32) (map (cast_elem TFloat32) (map2 (\<lambda>a b. B (a = b)) ts ps)) ws =
   map (\<lambda>((t, p), w). F ((if t = p then 1 else 0) * to_real w)) (zip (zip ts ps) ws)"
proof (induction ws arbitrary: ts ps)
  case Nil
  then show ?case by simp
next
  case (Cons w ws)
  from Cons.prems obtain r where w: "w = F r" by (cases w) simp_all
  show ?case
  proof (cases ts)
    case Nil
    then show ?thesis by simp
  next
    case ts: (Cons t ts')
    show ?thesis
    proof (cases ps)
      case Nil
      then show ?thesis by (simp add: ts)
    next
      case (Cons p ps')
      then show ?thesis using Cons.IH [of ts' ps'] Cons.prems by (simp add: ts w)
    qed
  qed
qed

lemma scored_same_shape:
  assumes "shape p = shape t" and "shape w = shape t"
    and "dtype p = dtype t" and "dtype w = TFloat32"
    and "wf_tensor t" and "wf_tensor p" and "wf_tensor w"
  shows "scored t p w = Inr (scored_spec t p w)"
proof -
  let ?c = "\<lparr>dtype = TBool, shape = shape t, data = map2 (\<lambda>a b. B (a = b)) (data t) (data p)\<rparr>"
  have eq: "tf_equal t p = Inr ?c"
    using assms by (simp add: tf_equal_def elementwise_same_shape wf_tensor_def)
  have len: "length (data (tf_cast ?c TFloat32)) = prod_list (shape (tf_cast ?c TFloat32))"
    using assms by (simp add: tf_cast_def wf_tensor_def)
  have "tf_multiply (tf_cast ?c TFloat32) w =
      Inr \<lparr>dtype = TFloat32, shape = shape t,
           data = map2 (elem_mult TFloat32) (data (tf_cast ?c TFloat32)) (data w)\<rparr>"
    using assms len elementwise_same_shape [of "tf_cast ?c TFloat32" w "elem_mult TFloat32" TFloat32]
    by (simp add: tf_multiply_def tf_cast_def wf_tensor_def)
  moreover have "map2 (elem_mult TFloat32) (data (tf_cast ?c TFloat32)) (data w) = data (scored_spec t p w)"
    using assms weighted_data [of "data w" "data t" "data p"]
    by (simp add: tf_cast_def scored_spec_def wf_tensor_def)
  ultimately show ?thesis
    by (simp add: scored_def eq scored_spec_def)
qed

lemma outcome_accuracy:
  assumes "targets < length g" and "weights < length g"
  shows "outcome (accuracy targets predictions weights g) =
    (if ndims (g ! predictions) > ndims (g ! targets) then
       if ndims (g ! predictions) - ndims (g ! targets) > 1 then
         Inl (ValueError (rank_message (ndims (g ! predictions)) (ndims (g ! targets))))
       else (case tf_argmax (g ! predictions) of
               Inl e \<Rightarrow> Inl e
             | Inr decoded \<Rightarrow>
                 map_sum id (\<lambda>s. (s, g ! weights))
                   (scored (g ! targets) (tf_cast decoded TInt32) (g ! weights)))
     else map_sum id (\<lambda>s. (s, g ! weights)) (scored (g ! targets) (g ! predictions) (g ! weights)))"
proof -
  have dec: "outcome (bind (op_argmax predictions) (\<lambda>predictions.
                bind (op_cast predictions TInt32) (\<lambda>predictions.
                accuracy_tail targets predictions weights)) g) =
      (case tf_argmax (g ! predictions) of
         Inl e \<Rightarrow> Inl e
       | Inr decoded \<Rightarrow>
           map_sum id (\<lambda>s. (s, g ! weights))
             (scored (g ! targets) (tf_cast decoded TInt32) (g ! weights)))"
  proof (cases "tf_argmax (g ! predictions)")
    case (Inl e)
    then show ?thesis by (simp add: bind_def op_argmax_def create_def)
  next
    case (Inr decoded)
    let ?g = "g @ [decoded, tf_cast decoded TInt32]"
    have "bind (op_argmax predictions) (\<lambda>predictions.
            bind (op_cast predictions TInt32) (\<lambda>predictions.
            accuracy_tail targets predictions weights)) g
        = accuracy_tail targets (Suc (length g)) weights ?g"
      using Inr by (simp add: bind_def op_argmax_def op_cast_def create_def)
    moreover have "outcome (accuracy_tail targets (Suc (length g)) weights ?g) =
        map_sum id (\<lambda>s. (s, ?g ! weights)) (scored (?g ! targets) (?g ! Suc (length g)) (?g ! weights))"
      using assms by (intro outcome_accuracy_tail) simp
    ultimately show ?thesis using assms Inr by (simp add: nth_append)
  qed
  show ?thesis
    using assms dec by (simp add: accuracy_def Let_def raise_def outcome_accuracy_tail)
qed

lemma elementwise_error: "elementwise f out x y = Inl e \<Longrightarrow> e = OpTypeError \<or> e = OpShapeError"
  by (auto simp: elementwise_def split: if_splits option.splits)

lemma scored_error: "scored t p w = Inl e \<Longrightarrow> e = OpTypeError \<or> e = OpShapeError"
  by (auto simp: scored_def tf_equal_def tf_multiply_def split: sum.splits if_splits
      dest: elementwise_error)

lemma scored_accepted: "isl (scored t p w) \<longleftrightarrow> \<not> accepted t p w"
  by (auto simp: scored_def accepted_def tf_equal_def tf_multiply_def tf_cast_def elementwise_def
      split: sum.splits option.splits if_splits)

lemma create_prefix: "prefix g (snd (create r g))"
  by (cases r) (simp_all add: create_def)

lemma bind_prefix:
  assumes "\<And>g. prefix g (snd (m g))" and "\<And>a g. prefix g (snd (f a g))"
  shows "prefix g (snd (bind m f g))"
proof (cases "m g")
  case (Pair r g')
  have 1: "prefix g g'" using assms(1) [of g] Pair by simp
  show ?thesis
  proof (cases r)
    case (Inl e)
    then show ?thesis using Pair 1 by (simp add: bind_def)
  next
    case (Inr a)
    have "prefix g' (snd (f a g'))" by (rule assms(2))
    with 1 have "prefix g (snd (f a g'))" by (rule prefix_order.order_trans)
    then show ?thesis using Pair Inr by (simp add: bind_def)
  qed
qed

lemma accuracy_tail_prefix: "prefix g (snd (accuracy_tail targets predictions weights g))"
  unfolding accuracy_tail_def
  by (intro bind_prefix) (simp_all add: op_equal_def op_cast_def op_multiply_def create_prefix ret_def)

lemma accuracy_prefix: "prefix g (snd (accuracy targets predictions weights g))"
proof -
  have "prefix g (snd (bind (op_argmax predictions) (\<lambda>predictions.
                bind (op_cast predictions TInt32) (\<lambda>predictions.
                accuracy_tail targets predictions weights)) g))"
    by (intro bind_prefix) (simp_all add: op_argmax_def op_cast_def create_prefix accuracy_tail_prefix)
  then show ?thesis
    by (simp add: accuracy_def Let_def raise_def accuracy_tail_prefix)
qed

lemma accuracy_returns_weights:
  "fst (accuracy targets predictions weights g) = Inr (values, w) \<Longrightarrow> w = weights"
  by (auto simp: accuracy_def accuracy_tail_def Let_def raise_def bind_def ret_def
      split: if_splits sum.splits prod.splits)

section \<open>Facts about collections and streaming averages\<close>

lemma add_to_collections_frame:
  "tensors (add_to_collections ks item w) = tensors w
   \<and> averages (add_to_collections ks item w) = averages w"
  by (induction ks arbitrary: w) (simp_all add: add_to_collection_def)

lemma add_to_collections_appends:
  "collections (add_to_collections ks item w) k = collections w k @ replicate (count_list ks k) item"
proof (induction ks arbitrary: w)
  case Nil
  then show ?case by simp
next
  case (Cons a ks)
  show ?case
  proof (cases "a = k")
    case True
    then show ?thesis
      by (simp add: Cons.IH add_to_collection_def replicate_append_same)
  next
    case False
    then show ?thesis by (simp add: Cons.IH add_to_collection_def)
  qed
qed

lemma publish_frame:
  "tensors (publish ks item w) = tensors w \<and> averages (publish ks item w) = averages w"
  by (cases "(ks, item, w)" rule: publish.cases)
     (simp_all add: add_to_collections_frame add_to_collection_def)

lemma publish_appends:
  "collections (publish ks item w) k = collections w k @ replicate (count_list (keys ks) k) item"
  by (cases "(ks, item, w)" rule: publish.cases)
     (simp_all add: add_to_collections_appends add_to_collection_def)

lemma compute_error:
  "func self targets predictions weights (tensors w) = (Inl e, g) \<Longrightarrow>
   StreamingMetric_compute self targets predictions weights mc uc scope w = (Some e, w\<lparr>tensors := g\<rparr>)"
  by (simp add: StreamingMetric_compute_def)

lemma compute_success:
  "func self targets predictions weights (tensors w) = (Inr (values, weights'), g) \<Longrightarrow>
   StreamingMetric_compute self targets predictions weights mc uc scope w =
     (None,
      publish uc (StreamingMetric_update_op self)
        (publish mc (StreamingMetric_value self)
          (StreamingAverage_compute (avg self) values weights' (scope_or scope (name self))
            (w\<lparr>tensors := g\<rparr>))))"
  by (simp add: StreamingMetric_compute_def Let_def)

lemma init_avg:
  "StreamingMetric_init f a n w = (m, w') \<Longrightarrow>
   avg m = (case a of None \<Rightarrow> length (averages w) | Some r \<Rightarrow> r)
   \<and> averages w' = (case a of None \<Rightarrow> averages w @ [StreamingAverage_new] | Some r \<Rightarrow> averages w)"
  by (auto simp: StreamingMetric_init_def split: option.splits)

lemma run_handle_other:
  assumes "run_handle h w = Some w'" and "h = Update_op a \<or> h = Reset_op a" and "b \<noteq> a"
  shows "averages w' ! b = averages w ! b"
  using assms by (auto split: if_splits option.splits sum.splits)

lemma compute_other:
  assumes "b \<noteq> avg self"
  shows "averages (snd (StreamingMetric_compute self targets predictions weights mc uc scope w)) ! b
    = averages w ! b"
proof (cases "func self targets predictions weights (tensors w)")
  case (Pair r g)
  show ?thesis
  proof (cases r)
    case (Inl e)
    then show ?thesis using Pair by (simp add: StreamingMetric_compute_def)
  next
    case (Inr vw)
    obtain v w' where vw: "vw = (v, w')" by (cases vw)
    show ?thesis
      using Pair Inr vw assms
      by (simp add: StreamingMetric_compute_def Let_def publish_frame StreamingAverage_compute_def)
  qed
qed

section \<open>Properties of accuracy\<close>

text \<open>
  C1 (amended). For targets, predictions and weights of one shape (so of one rank), with
  targets and predictions of one element type and float weights, \<open>accuracy\<close> returns the
  pair \<open>(scored, weights)\<close>: \<open>scored\<close> is the elementwise equality of targets and
  predictions, cast to floating point and multiplied elementwise by the weights, and the
  second component is the reference to the weights that was passed in. For
  \<open>targets = [0, 1, 2]\<close>, \<open>predictions = [0, 1, 1]\<close>, \<open>weights = [1, 1, 1]\<close> the
  scored tensor is \<open>[1, 1, 0]\<close>.
\<close>

theorem accuracy_equal_shape:
  assumes "targets < length g" and "predictions < length g" and "weights < length g"
    and "shape (g ! predictions) = shape (g ! targets)"
    and "shape (g ! weights) = shape (g ! targets)"
    and "dtype (g ! predictions) = dtype (g ! targets)"
    and "dtype (g ! weights) = TFloat32"
    and "wf_tensor (g ! targets)" and "wf_tensor (g ! predictions)" and "wf_tensor (g ! weights)"
  shows "fst (accuracy targets predictions weights g) = Inr (length g + 2, weights)
    \<and> outcome (accuracy targets predictions weights g)
        = Inr (scored_spec (g ! targets) (g ! predictions) (g ! weights), g ! weights)"
proof -
  have acc: "accuracy targets predictions weights g = accuracy_tail targets predictions weights g"
    using assms(4) by (simp add: accuracy_def ndims_def)
  have sc: "scored (g ! targets) (g ! predictions) (g ! weights)
      = Inr (scored_spec (g ! targets) (g ! predictions) (g ! weights))"
    using assms by (intro scored_same_shape) simp_all
  have "outcome (accuracy_tail targets predictions weights g)
      = Inr (scored_spec (g ! targets) (g ! predictions) (g ! weights), g ! weights)"
    using assms(3) sc by (simp add: outcome_accuracy_tail)
  moreover have "fst (accuracy_tail targets predictions weights g) = Inr (length g + 2, weights)"
    using assms(3) sc by (simp add: fst_accuracy_tail)
  ultimately show ?thesis by (simp add: acc)
qed

theorem accuracy_equal_shape_witness:
  "fst (accuracy 0 1 2 example_exact_match) = Inr (5, 2)
   \<and> outcome (accuracy 0 1 2 example_exact_match) = Inr (floats [3] [1, 1, 0], floats [3] [1, 1, 1])"
  using accuracy_equal_shape [of 0 example_exact_match 1 2]
  by (simp add: example_exact_match_def labels_int32_def floats_def wf_tensor_def scored_spec_def)

text \<open>
  C1 as stated gives \<open>[1, 0, 0]\<close> for that input; the second prediction equals its
  target, so the code scores \<open>[1, 1, 0]\<close>.
\<close>

theorem accuracy_exact_match_counterexample:
  "outcome (accuracy 0 1 2 example_exact_match) = Inr (floats [3] [1, 1, 0], floats [3] [1, 1, 1])
   \<and> floats [3] [1, 1, 0] \<noteq> floats [3] [1, 0, 0]"
  by code_simp

text \<open>
  C2. When the rank of the predictions exceeds the rank of the targets by more than one,
  \<open>accuracy\<close> fails with the \<open>ValueError\<close> of its rank test before it creates any
  tensor. The message contains the decimal rendering of both ranks. A metric that wraps
  \<open>accuracy\<close> passes the error on from \<open>compute\<close> and leaves the whole state as it
  was: no tensor is created, no streaming average and no collection is touched.
\<close>

theorem accuracy_rank_violation:
  assumes "ndims (tensors w ! predictions) > ndims (tensors w ! targets) + 1"
  shows "accuracy targets predictions weights (tensors w) =
      (Inl (ValueError (rank_message (ndims (tensors w ! predictions)) (ndims (tensors w ! targets)))),
       tensors w)
    \<and> sublist (show_nat (ndims (tensors w ! predictions)))
        (rank_message (ndims (tensors w ! predictions)) (ndims (tensors w ! targets)))
    \<and> sublist (show_nat (ndims (tensors w ! targets)))
        (rank_message (ndims (tensors w ! predictions)) (ndims (tensors w ! targets)))
    \<and> StreamingMetric_compute (self\<lparr>func := accuracy\<rparr>) targets predictions weights
        metrics_collections updates_collections scope w =
      (Some (ValueError (rank_message (ndims (tensors w ! predictions)) (ndims (tensors w ! targets)))), w)"
proof -
  let ?p = "ndims (tensors w ! predictions)" and ?t = "ndims (tensors w ! targets)"
  have gt: "?p > ?t" and diff: "?p - ?t > 1"
    using assms by arith+
  have acc: "accuracy targets predictions weights (tensors w) =
      (Inl (ValueError (rank_message ?p ?t)), tensors w)"
    using gt diff by (simp add: accuracy_def Let_def raise_def)
  have p: "sublist (show_nat ?p) (rank_message ?p ?t)"
    unfolding rank_message_def by (rule sublist_appendI)
  have "sublist (show_nat ?t) ((''Rank of `predictions` must be equal to rank of `label` or greater of 1, found ''
     @ show_nat ?p @ '' and '') @ show_nat ?t @ '' instead.'')"
    by (rule sublist_appendI)
  then have t: "sublist (show_nat ?t) (rank_message ?p ?t)"
    by (simp add: rank_message_def)
  have "StreamingMetric_compute (self\<lparr>func := accuracy\<rparr>) targets predictions weights
        metrics_collections updates_collections scope w = (Some (ValueError (rank_message ?p ?t)), w)"
    by (simp add: StreamingMetric_compute_def acc)
  with acc p t show ?thesis by simp
qed

theorem accuracy_rank_violation_witness:
  "ndims (example_rank_violation ! 1) > ndims (example_rank_violation ! 0) + 1
   \<and> StreamingMetric_compute example_metric 0 1 2 None None None (world_of example_rank_violation)
       = (Some (ValueError (rank_message 3 1)), world_of example_rank_violation)
   \<and> sublist ''3'' (rank_message 3 1) \<and> sublist ''1'' (rank_message 3 1)"
proof -
  have tw: "tensors (world_of example_rank_violation) = example_rank_violation"
    by (simp add: world_of_def)
  have p: "ndims (example_rank_violation ! 1) = 3"
    by (simp add: example_rank_violation_def floats_def ndims_def)
  have t: "ndims (example_rank_violation ! 0) = 1"
    by (simp add: example_rank_violation_def labels_int32_def ndims_def)
  have h: "ndims (tensors (world_of example_rank_violation) ! 1)
      > ndims (tensors (world_of example_rank_violation) ! 0) + 1"
    using p t by (simp add: tw)
  have m: "example_metric\<lparr>func := accuracy\<rparr> = example_metric"
    by (simp add: example_metric_def)
  have d: "show_nat 3 = ''3''" "show_nat 1 = ''1''"
    by (simp_all add: show_nat.simps digit_def)
  show ?thesis
    using accuracy_rank_violation [OF h, of 2 example_metric None None None] p t d
    by (simp add: tw m)
qed

text \<open>
  C3 (amended). With \<open>rank(predictions) = rank(targets) + 1\<close> the predictions are decoded
  by an arg-max over the trailing axis and the decoded labels are cast to \<open>tf.int32\<close>,
  the element type that the docstring requires of the targets, before they are compared.
  With equal ranks the predictions are compared as they are. For \<open>targets = [1]\<close> and
  \<open>predictions = [[0.1, 0.7, 0.2]]\<close> the decoded label is 1 and the score is \<open>[1]\<close>.
\<close>

theorem accuracy_decodes_distribution:
  assumes "targets < length g" and "weights < length g"
  shows "(ndims (g ! predictions) = ndims (g ! targets) + 1 \<longrightarrow>
      outcome (accuracy targets predictions weights g) =
        (case tf_argmax (g ! predictions) of
           Inl e \<Rightarrow> Inl e
         | Inr decoded \<Rightarrow>
             map_sum id (\<lambda>s. (s, g ! weights))
               (scored (g ! targets) (tf_cast decoded TInt32) (g ! weights)))
      \<and> (\<forall>decoded. dtype (tf_cast decoded TInt32) = TInt32))
    \<and> (ndims (g ! predictions) = ndims (g ! targets) \<longrightarrow>
      outcome (accuracy targets predictions weights g) =
        map_sum id (\<lambda>s. (s, g ! weights)) (scored (g ! targets) (g ! predictions) (g ! weights)))"
  using assms by (simp add: outcome_accuracy tf_cast_def)

theorem accuracy_decodes_distribution_witness:
  "ndims (example_distribution ! 1) = ndims (example_distribution ! 0) + 1
   \<and> tf_argmax (example_distribution ! 1) = Inr \<lparr>dtype = TInt64, shape = [1], data = [I 1]\<rparr>
   \<and> outcome (accuracy 0 1 2 example_distribution) = Inr (floats [1] [1], floats [1] [1])
   \<and> ndims (example_exact_match ! 1) = ndims (example_exact_match ! 0)
   \<and> outcome (accuracy 0 1 2 example_exact_match) = Inr (floats [3] [1, 1, 0], floats [3] [1, 1, 1])"
proof -
  have a: "tf_argmax (example_distribution ! 1) = Inr \<lparr>dtype = TInt64, shape = [1], data = [I 1]\<rparr>"
    by code_simp
  have s: "scored (example_distribution ! 0) (tf_cast \<lparr>dtype = TInt64, shape = [1], data = [I 1]\<rparr> TInt32)
      (example_distribution ! 2) = Inr (floats [1] [1])"
    by code_simp
  have w: "example_distribution ! 2 = floats [1] [1]"
    by (simp add: example_distribution_def)
  have n: "ndims (example_distribution ! 1) = ndims (example_distribution ! 0) + 1"
    by (simp add: example_distribution_def ndims_def labels_int32_def floats_def)
  have l: "0 < length example_distribution" "2 < length example_distribution"
    by (simp_all add: example_distribution_def)
  have s': "scored (example_exact_match ! 0) (example_exact_match ! 1) (example_exact_match ! 2)
      = Inr (floats [3] [1, 1, 0])"
    by code_simp
  have w': "example_exact_match ! 2 = floats [3] [1, 1, 1]"
    by (simp add: example_exact_match_def)
  have n': "ndims (example_exact_match ! 1) = ndims (example_exact_match ! 0)"
    by (simp add: example_exact_match_def ndims_def labels_int32_def)
  have l': "0 < length example_exact_match" "2 < length example_exact_match"
    by (simp_all add: example_exact_match_def)
  show ?thesis
    using accuracy_decodes_distribution [OF l, of 1] accuracy_decodes_distribution [OF l', of 1]
      n a s w n' s' w'
    by simp
qed

text \<open>
  C3 as stated has the decoded labels cast to the integer type of the targets. The cast
  is to \<open>tf.int32\<close> whatever the targets are: with \<open>tf.int64\<close> targets the decoded
  labels are still \<open>tf.int32\<close>, and the comparison rejects the two element types.
\<close>

theorem accuracy_cast_counterexample:
  "ndims (example_int64_targets ! 1) = ndims (example_int64_targets ! 0) + 1
   \<and> dtype (example_int64_targets ! 0) = TInt64
   \<and> dtype (snd (accuracy 0 1 2 example_int64_targets) ! 4) = TInt32
   \<and> fst (accuracy 0 1 2 example_int64_targets) = Inl OpTypeError"
  by code_simp

text \<open>
  C9 (amended). With \<open>rank(predictions) \<le> rank(targets)\<close> the rank test of \<open>accuracy\<close>
  does not fire and no arg-max is applied: the predictions are compared to the targets
  elementwise, with broadcasting. The call fails exactly when the comparison or the
  weighting rejects its operands (element types that differ, shapes that do not
  broadcast), and then with the error of that operation, never with the \<open>ValueError\<close> of
  the rank test.
\<close>

theorem accuracy_lower_rank:
  assumes "weights < length g"
    and "ndims (g ! predictions) \<le> ndims (g ! targets)"
  shows "outcome (accuracy targets predictions weights g) =
        map_sum id (\<lambda>s. (s, g ! weights)) (scored (g ! targets) (g ! predictions) (g ! weights))
    \<and> (\<forall>msg. fst (accuracy targets predictions weights g) \<noteq> Inl (ValueError msg))
    \<and> (isl (fst (accuracy targets predictions weights g))
         \<longleftrightarrow> \<not> accepted (g ! targets) (g ! predictions) (g ! weights))"
proof -
  let ?s = "scored (g ! targets) (g ! predictions) (g ! weights)"
  have acc: "accuracy targets predictions weights g = accuracy_tail targets predictions weights g"
    using assms(2) by (simp add: accuracy_def)
  have f: "fst (accuracy targets predictions weights g) = map_sum id (\<lambda>s. (length g + 2, weights)) ?s"
    using assms(1) by (simp add: acc fst_accuracy_tail)
  have 1: "outcome (accuracy targets predictions weights g) = map_sum id (\<lambda>s. (s, g ! weights)) ?s"
    using assms(1) by (simp add: acc outcome_accuracy_tail)
  have 2: "fst (accuracy targets predictions weights g) \<noteq> Inl (ValueError msg)" for msg
    using scored_error [of "g ! targets" "g ! predictions" "g ! weights"]
    by (cases ?s) (auto simp: f)
  have 3: "isl (fst (accuracy targets predictions weights g)) \<longleftrightarrow> isl ?s"
    by (cases ?s) (simp_all add: f)
  show ?thesis using 1 2 3 by (simp add: scored_accepted)
qed

theorem accuracy_lower_rank_witness:
  "ndims (example_lower_rank ! 1) \<le> ndims (example_lower_rank ! 0)
   \<and> accepted (example_lower_rank ! 0) (example_lower_rank ! 1) (example_lower_rank ! 2)
   \<and> outcome (accuracy 0 1 2 example_lower_rank) = Inr (floats [2, 3] [2, 2, 0, 0, 2, 0], floats [] [2])
   \<and> \<not> isl (fst (accuracy 0 1 2 example_lower_rank))"
proof -
  have s: "scored (example_lower_rank ! 0) (example_lower_rank ! 1) (example_lower_rank ! 2)
      = Inr (floats [2, 3] [2, 2, 0, 0, 2, 0])"
    by code_simp
  have a: "accepted (example_lower_rank ! 0) (example_lower_rank ! 1) (example_lower_rank ! 2)"
    by code_simp
  have n: "ndims (example_lower_rank ! 1) \<le> ndims (example_lower_rank ! 0)"
    by code_simp
  have w: "example_lower_rank ! 2 = floats [] [2]"
    by (simp add: example_lower_rank_def)
  have l: "2 < length example_lower_rank"
    by (simp add: example_lower_rank_def)
  show ?thesis
    using accuracy_lower_rank [OF l n] s a w n by simp
qed

text \<open>
  C9 as stated has no error at all for such ranks. Targets of shape \<open>[3]\<close> and
  predictions of shape \<open>[2]\<close> have equal rank, and the comparison rejects them.
\<close>

theorem accuracy_shape_mismatch_counterexample:
  "ndims (example_shape_mismatch ! 1) \<le> ndims (example_shape_mismatch ! 0)
   \<and> fst (accuracy 0 1 2 example_shape_mismatch) = Inl OpShapeError"
  by code_simp

text \<open>
  C8. \<open>accuracy\<close> is deterministic and changes nothing that exists: every tensor object
  that existed before the call, the three inputs among them, is the same afterwards (the
  call only creates new tensors), the weights it returns are the reference it was given,
  and two calls on inputs with equal contents have equal outcomes, in whatever stores
  they run. The streaming averages and the collections are not among the things that
  \<open>accuracy\<close> receives or returns.
\<close>

theorem accuracy_side_effect_free:
  assumes "targets < length g" and "weights < length g"
    and "targets' < length h" and "weights' < length h"
    and "h ! targets' = g ! targets" and "h ! predictions' = g ! predictions"
    and "h ! weights' = g ! weights"
  shows "prefix g (snd (accuracy targets predictions weights g))
    \<and> outcome (accuracy targets' predictions' weights' h) = outcome (accuracy targets predictions weights g)
    \<and> (\<forall>values w. fst (accuracy targets predictions weights g) = Inr (values, w) \<longrightarrow> w = weights)"
proof -
  have "outcome (accuracy targets' predictions' weights' h) = outcome (accuracy targets predictions weights g)"
    unfolding outcome_accuracy [OF assms(1,2)] outcome_accuracy [OF assms(3,4)] assms(5-7) ..
  then show ?thesis
    using accuracy_prefix accuracy_returns_weights by blast
qed

theorem accuracy_side_effect_free_witness:
  "prefix example_exact_match (snd (accuracy 0 1 2 example_exact_match))
   \<and> outcome (accuracy 1 2 3 (floats [] [5] # example_exact_match))
       = outcome (accuracy 0 1 2 example_exact_match)
   \<and> fst (accuracy 0 1 2 example_exact_match) = Inr (5, 2)"
proof -
  have f: "fst (accuracy 0 1 2 example_exact_match) = Inr (5, 2)"
    by code_simp
  show ?thesis
    using accuracy_side_effect_free [of 0 example_exact_match 2 1 "floats [] [5] # example_exact_match" 3 2 1] f
    by (simp add: example_exact_match_def)
qed

section \<open>Properties of StreamingMetric\<close>

text \<open>
  C4. \<open>total\<close> returns the running-value read of the streaming average, not its
  running sum. After one update with three matches among four targets of weight 1, the
  running sum is 3 and \<open>total\<close> reads 3/4; \<open>count\<close> reads the running weight 4.
\<close>

theorem total_reads_running_mean:
  "example_updated \<noteq> None
   \<and> read_handle (the example_updated) (StreamingMetric_total example_metric) = Some (3 / 4)
   \<and> running_sum (averages (the example_updated) ! avg example_metric) = 3
   \<and> read_handle (the example_updated) (StreamingMetric_count example_metric) = Some 4
   \<and> running_weight (averages (the example_updated) ! avg example_metric) = 4"
  by code_simp

text \<open>
  C5. A call of the metric has the effect of \<open>compute\<close> with the same arguments and, when
  \<open>compute\<close> returns, gives back the pair of the running-value read and the update action
  of the metric's streaming average. An error of \<open>compute\<close> is passed on.
\<close>

theorem call_returns_value_and_update:
  "snd (StreamingMetric_call self targets predictions weights mc uc scope w)
     = snd (StreamingMetric_compute self targets predictions weights mc uc scope w)
   \<and> (fst (StreamingMetric_compute self targets predictions weights mc uc scope w) = None \<longrightarrow>
        fst (StreamingMetric_call self targets predictions weights mc uc scope w)
          = Inr (Read (avg self) Value, Update_op (avg self)))
   \<and> (\<forall>e. fst (StreamingMetric_compute self targets predictions weights mc uc scope w) = Some e \<longrightarrow>
        fst (StreamingMetric_call self targets predictions weights mc uc scope w) = Inl e)"
  by (cases "StreamingMetric_compute self targets predictions weights mc uc scope w")
     (auto simp: StreamingMetric_call_def StreamingMetric_value_def StreamingMetric_update_op_def
        StreamingAverage_value_def StreamingAverage_update_op_def split: option.splits)

theorem call_returns_value_and_update_witness:
  "fst (StreamingMetric_compute example_metric 0 1 2 None None None (world_of example_exact_match)) = None
   \<and> fst (StreamingMetric_call example_metric 0 1 2 None None None (world_of example_exact_match))
       = Inr (Read 0 Value, Update_op 0)
   \<and> fst (StreamingMetric_compute example_metric 0 1 2 None None None (world_of example_rank_violation))
       = Some (ValueError (rank_message 3 1))
   \<and> fst (StreamingMetric_call example_metric 0 1 2 None None None (world_of example_rank_violation))
       = Inl (ValueError (rank_message 3 1))"
proof -
  have ok: "fst (StreamingMetric_compute example_metric 0 1 2 None None None
      (world_of example_exact_match)) = None"
    by code_simp
  have bad: "fst (StreamingMetric_compute example_metric 0 1 2 None None None
      (world_of example_rank_violation)) = Some (ValueError (rank_message 3 1))"
    by code_simp
  have a: "avg example_metric = 0" by (simp add: example_metric_def)
  show ?thesis
    using call_returns_value_and_update [of example_metric 0 1 2 None None None
        "world_of example_exact_match"]
      call_returns_value_and_update [of example_metric 0 1 2 None None None
        "world_of example_rank_violation"] ok bad a
    by simp
qed

text \<open>
  C6. \<open>compute\<close> appends the running-value read to the collection of every name in
  \<open>metrics_collections\<close>, then the update action to the collection of every name in
  \<open>updates_collections\<close>; what a collection held before stays in front. A key list
  that is \<open>None\<close> or empty adds nothing, and a call that fails adds nothing.
\<close>

theorem compute_publishes:
  "collections (snd (StreamingMetric_compute self targets predictions weights mc uc scope w)) k =
     collections w k @
       (if fst (StreamingMetric_compute self targets predictions weights mc uc scope w) = None
        then replicate (count_list (keys mc) k) (Read (avg self) Value)
             @ replicate (count_list (keys uc) k) (Update_op (avg self))
        else [])"
proof (cases "func self targets predictions weights (tensors w)")
  case (Pair r g)
  show ?thesis
  proof (cases r)
    case (Inl e)
    then show ?thesis using Pair by (simp add: compute_error)
  next
    case (Inr vw)
    obtain v w' where vw: "vw = (v, w')" by (cases vw)
    show ?thesis
      using Pair Inr vw
      by (simp add: compute_success publish_appends StreamingAverage_compute_def
          StreamingMetric_value_def StreamingMetric_update_op_def
          StreamingAverage_value_def StreamingAverage_update_op_def)
  qed
qed

theorem compute_publishes_witness:
  "collections (snd (StreamingMetric_compute example_metric 0 1 2 (Some [''metrics''])
      (Some [''updates'', ''metrics'']) None (world_of example_exact_match))) ''metrics''
     = [Read 0 Value, Update_op 0]
   \<and> collections (snd (StreamingMetric_compute example_metric 0 1 2 (Some [''metrics''])
      (Some [''updates'', ''metrics'']) None (world_of example_exact_match))) ''updates''
     = [Update_op 0]
   \<and> collections (snd (StreamingMetric_compute example_metric 0 1 2 None (Some [])
      None (world_of example_exact_match))) ''metrics'' = []"
proof -
  have "fst (accuracy 0 1 2 example_exact_match) = Inr (5, 2)" by code_simp
  then have "accuracy 0 1 2 example_exact_match = (Inr (5, 2), snd (accuracy 0 1 2 example_exact_match))"
    by (metis prod.collapse)
  then have f: "func example_metric 0 1 2 (tensors (world_of example_exact_match))
      = (Inr (5, 2), snd (accuracy 0 1 2 example_exact_match))"
    by (simp add: example_metric_def world_of_def)
  have ok: "fst (StreamingMetric_compute example_metric 0 1 2 mc uc None
      (world_of example_exact_match)) = None" for mc uc
    by (subst compute_success [OF f]) simp
  have a: "avg example_metric = 0" by (simp add: example_metric_def)
  have c: "collections (world_of example_exact_match) k = []" for k
    by (simp add: world_of_def)
  show ?thesis
    using compute_publishes [of example_metric 0 1 2 "Some [''metrics'']"
        "Some [''updates'', ''metrics'']" None "world_of example_exact_match" "''metrics''"]
      compute_publishes [of example_metric 0 1 2 "Some [''metrics'']"
        "Some [''updates'', ''metrics'']" None "world_of example_exact_match" "''updates''"]
      compute_publishes [of example_metric 0 1 2 None "Some []" None
        "world_of example_exact_match" "''metrics''"]
      ok [of "Some [''metrics'']" "Some [''updates'', ''metrics'']"] ok [of None "Some []"]
    by (simp add: a c)
qed

text \<open>
  C7 (amended). When the wrapped function succeeds, the batch is declared under the scope
  name that the caller passed if that name is not empty, and under the metric's own name
  if the scope argument is \<open>None\<close> or the empty string.
\<close>

theorem compute_scope:
  assumes "avg self < length (averages w)"
    and "func self targets predictions weights (tensors w) = (Inr (values, weights'), g)"
  shows "declared (averages (snd (StreamingMetric_compute self targets predictions weights
            mc uc scope w)) ! avg self) =
      Some (values, weights',
        (case scope of None \<Rightarrow> name self | Some s \<Rightarrow> if s = [] then name self else s))"
proof -
  have "scope_or scope (name self) =
      (case scope of None \<Rightarrow> name self | Some s \<Rightarrow> if s = [] then name self else s)"
    by (cases "(scope, name self)" rule: scope_or.cases) simp_all
  then show ?thesis
    using assms by (simp add: compute_success publish_frame StreamingAverage_compute_def)
qed

theorem compute_scope_witness:
  "declared (averages (snd (StreamingMetric_compute example_metric 0 1 2 None None (Some ''eval'')
      (world_of example_exact_match))) ! 0) = Some (5, 2, ''eval'')
   \<and> declared (averages (snd (StreamingMetric_compute example_metric 0 1 2 None None None
      (world_of example_exact_match))) ! 0) = Some (5, 2, ''accuracy'')"
proof -
  have "fst (accuracy 0 1 2 example_exact_match) = Inr (5, 2)" by code_simp
  then have "accuracy 0 1 2 example_exact_match = (Inr (5, 2), snd (accuracy 0 1 2 example_exact_match))"
    by (metis prod.collapse)
  then have f: "func example_metric 0 1 2 (tensors (world_of example_exact_match))
      = (Inr (5, 2), snd (accuracy 0 1 2 example_exact_match))"
    by (simp add: example_metric_def world_of_def)
  have l: "avg example_metric < length (averages (world_of example_exact_match))"
    by (simp add: example_metric_def world_of_def)
  have a: "avg example_metric = 0" "name example_metric = ''accuracy''"
    by (simp_all add: example_metric_def)
  show ?thesis
    using compute_scope [OF l f, of None None "Some ''eval''"] compute_scope [OF l f, of None None None]
    by (simp add: a)
qed

text \<open>
  C7 as stated uses every scope name that is given. The empty string is given here, and
  \<open>scope or self._name\<close> takes the metric's name.
\<close>

theorem compute_scope_counterexample:
  "declared (averages (snd (StreamingMetric_compute example_metric 0 1 2 None None (Some '''')
        (world_of example_exact_match))) ! 0) = Some (5, 2, ''accuracy'')
   \<and> ''accuracy'' \<noteq> ''''"
  by code_simp

text \<open>
  C10. A metric constructed without an average owns a new streaming average, one that did
  not exist before. Two metrics constructed one after the other refer to the same average
  exactly when the second is given the average of the first. When they refer to different
  averages, declaring a batch through one of them, or running its update or reset action,
  leaves the average of the other as it was.
\<close>

theorem init_owns_fresh_average:
  assumes "StreamingMetric_init f1 a1 n1 w = (m1, w1)"
    and "StreamingMetric_init f2 a2 n2 w1 = (m2, w2)"
    and "case a1 of None \<Rightarrow> True | Some a \<Rightarrow> a < length (averages w)"
  shows "(avg m1 = avg m2 \<longleftrightarrow> a2 = Some (avg m1))
    \<and> (a1 = None \<longrightarrow> avg m1 = length (averages w) \<and> averages w1 ! avg m1 = StreamingAverage_new)
    \<and> (a2 = None \<longrightarrow> avg m2 = length (averages w1) \<and> averages w2 ! avg m2 = StreamingAverage_new)
    \<and> (avg m1 \<noteq> avg m2 \<longrightarrow>
         (\<forall>u u'. run_handle (StreamingMetric_update_op m2) u = Some u' \<longrightarrow>
            averages u' ! avg m1 = averages u ! avg m1)
       \<and> (\<forall>u u'. run_handle (StreamingMetric_reset_op m2) u = Some u' \<longrightarrow>
            averages u' ! avg m1 = averages u ! avg m1)
       \<and> (\<forall>t p ws mc uc sc u.
            averages (snd (StreamingMetric_compute m2 t p ws mc uc sc u)) ! avg m1
              = averages u ! avg m1))"
proof -
  note i1 = init_avg [OF assms(1)] and i2 = init_avg [OF assms(2)]
  have valid: "avg m1 < length (averages w1)"
    using i1 assms(3) by (cases a1) simp_all
  have share: "avg m1 = avg m2 \<longleftrightarrow> a2 = Some (avg m1)"
    using i2 valid by (cases a2) auto
  have fresh1: "a1 = None \<longrightarrow> avg m1 = length (averages w) \<and> averages w1 ! avg m1 = StreamingAverage_new"
    using i1 by simp
  have fresh2: "a2 = None \<longrightarrow> avg m2 = length (averages w1) \<and> averages w2 ! avg m2 = StreamingAverage_new"
    using i2 by simp
  have frame: "avg m1 \<noteq> avg m2 \<longrightarrow>
         (\<forall>u u'. run_handle (StreamingMetric_update_op m2) u = Some u' \<longrightarrow>
            averages u' ! avg m1 = averages u ! avg m1)
       \<and> (\<forall>u u'. run_handle (StreamingMetric_reset_op m2) u = Some u' \<longrightarrow>
            averages u' ! avg m1 = averages u ! avg m1)
       \<and> (\<forall>t p ws mc uc sc u.
            averages (snd (StreamingMetric_compute m2 t p ws mc uc sc u)) ! avg m1
              = averages u ! avg m1)"
    using run_handle_other [of "Update_op (avg m2)" _ _ "avg m2" "avg m1"]
      run_handle_other [of "Reset_op (avg m2)" _ _ "avg m2" "avg m1"]
      compute_other [of "avg m1" m2]
    by (simp add: StreamingMetric_update_op_def StreamingMetric_reset_op_def
        StreamingAverage_update_op_def StreamingAverage_reset_op_def)
  show ?thesis using share fresh1 fresh2 frame by blast
qed

theorem init_owns_fresh_average_witness:
  "avg (fst (StreamingMetric_init accuracy None ''first'' (world_of [])))
     \<noteq> avg (fst (StreamingMetric_init accuracy None ''second''
        (snd (StreamingMetric_init accuracy None ''first'' (world_of [])))))
   \<and> avg (fst (StreamingMetric_init accuracy None ''first'' (world_of [])))
     = avg (fst (StreamingMetric_init accuracy (Some 1) ''third''
        (snd (StreamingMetric_init accuracy None ''first'' (world_of [])))))
   \<and> averages (snd (StreamingMetric_init accuracy None ''first'' (world_of []))) ! 1
     = StreamingAverage_new
   \<and> map_option (\<lambda>u. averages u ! 1)
       (run_handle (StreamingMetric_reset_op (fst (StreamingMetric_init accuracy None ''second''
            (snd (StreamingMetric_init accuracy None ''first'' (world_of []))))))
          (snd (StreamingMetric_init accuracy None ''second''
            (snd (StreamingMetric_init accuracy None ''first'' (world_of []))))))
     = Some StreamingAverage_new"
proof -
  let ?i1 = "StreamingMetric_init accuracy None ''first'' (world_of [])"
  let ?i2 = "StreamingMetric_init accuracy None ''second'' (snd ?i1)"
  let ?i3 = "StreamingMetric_init accuracy (Some 1) ''third'' (snd ?i1)"
  have 1: "?i1 = (fst ?i1, snd ?i1)" and 2: "?i2 = (fst ?i2, snd ?i2)" and 3: "?i3 = (fst ?i3, snd ?i3)"
    by simp_all
  have h: "case None of None \<Rightarrow> True | Some a \<Rightarrow> a < length (averages (world_of []))"
    by simp
  have a: "avg (fst ?i1) = 1"
    by (simp add: StreamingMetric_init_def world_of_def)
  note t = init_owns_fresh_average [OF 1 2 h]
  from t have A: "avg (fst ?i1) = avg (fst ?i2) \<longleftrightarrow> None = Some (avg (fst ?i1))"
    by (rule conjunct1)
  from init_owns_fresh_average [OF 1 3 h]
  have B: "avg (fst ?i1) = avg (fst ?i3) \<longleftrightarrow> Some 1 = Some (avg (fst ?i1))"
    by (rule conjunct1)
  from t [THEN conjunct2, THEN conjunct1]
  have C: "averages (snd ?i1) ! avg (fst ?i1) = StreamingAverage_new"
    by blast
  obtain u where u: "run_handle (StreamingMetric_reset_op (fst ?i2)) (snd ?i2) = Some u"
    by (simp add: StreamingMetric_init_def world_of_def StreamingMetric_reset_op_def
        StreamingAverage_reset_op_def)
  have ne: "avg (fst ?i1) \<noteq> avg (fst ?i2)" using A by simp
  from t [THEN conjunct2, THEN conjunct2, THEN conjunct2] ne
  have "\<forall>v v'. run_handle (StreamingMetric_reset_op (fst ?i2)) v = Some v' \<longrightarrow>
            averages v' ! avg (fst ?i1) = averages v ! avg (fst ?i1)"
    by blast
  with u have "averages u ! avg (fst ?i1) = averages (snd ?i2) ! avg (fst ?i1)"
    by blast
  moreover have "averages (snd ?i2) ! avg (fst ?i1) = StreamingAverage_new"
    by (simp add: StreamingMetric_init_def world_of_def)
  ultimately have D: "averages u ! 1 = StreamingAverage_new" using a by simp
  show ?thesis using A B C D a u by simp
qed

end
